theory Spec2Isabelle
  imports Complex_Main "HOL-Library.Sublist"
begin

section \<open>Vehicle service center: data model\<close>

text \<open>
  A shallow embedding of \<^verbatim>\<open>Bootcampmp2.cpp\<close>. Classes become records and
  datatypes, virtual dispatch becomes pattern matching on the constructor, the standard
  streams become fields of an explicit \<open>io\<close> state that every printing or reading
  function takes and returns, and a C++ exception becomes the \<open>Inl\<close> branch of a
  result that is returned together with the state the throw leaves behind.

  Not modelled: the mutex and the condition variable of \<^verbatim>\<open>ServiceCenter\<close> (one thread
  runs the whole program, \<^verbatim>\<open>lock_guard\<close> is taken and released inside each method), the
  back pointer \<^verbatim>\<open>ServiceAppointment::serviceCenter\<close> (stored, never read), and
  allocation failure.
\<close>

subsection \<open>Standard streams\<close>

text \<open>
  \<^verbatim>\<open>cin\<close> is the list of lines not yet read and the stream's fail bit; \<^verbatim>\<open>cout\<close> and
  \<^verbatim>\<open>cerr\<close> are the characters written so far.
\<close>

record istream =
  pending :: "string list"
  failbit :: bool

record io =
  cin :: istream
  cout :: string
  cerr :: string

text \<open>\<^verbatim>\<open>endl\<close> writes a newline (and flushes, which has no content here).\<close>

definition endl :: string where
  "endl = [CHR 0x0A]"

text \<open>
  \<^verbatim>\<open>getline(cin, s)\<close> for a freshly constructed (empty) \<^verbatim>\<open>s\<close>: on a failed stream
  nothing is read and \<^verbatim>\<open>s\<close> stays empty; at end of input the fail bit is set and
  \<^verbatim>\<open>s\<close> is empty; otherwise the next line is removed from the input and returned
  without its newline.
\<close>

definition getline :: "io \<Rightarrow> string \<times> io" where
  "getline s =
     (if failbit (cin s) then ([], s)
      else case pending (cin s) of
             [] \<Rightarrow> ([], s\<lparr>cin := (cin s)\<lparr>failbit := True\<rparr>\<rparr>)
           | l # ls \<Rightarrow> (l, s\<lparr>cin := (cin s)\<lparr>pending := ls\<rparr>\<rparr>))"

definition print :: "string \<Rightarrow> io \<Rightarrow> io" where
  "print txt s = s\<lparr>cout := cout s @ txt\<rparr>"

subsection \<open>Exceptions\<close>

datatype exception = runtime_error string | invalid_argument string

fun what :: "exception \<Rightarrow> string" where
  "what (runtime_error m) = m"
| "what (invalid_argument m) = m"

subsection \<open>Client (the observer)\<close>

record Client =
  name :: string
  contact :: string

definition Client_new :: "string \<Rightarrow> string \<Rightarrow> Client" where
  "Client_new n c = \<lparr>name = n, contact = c\<rparr>"

text \<open>\<^verbatim>\<open>Client::update\<close> assigns no field of the client; it writes one line to \<^verbatim>\<open>cout\<close>.\<close>

definition Client_update :: "Client \<Rightarrow> string \<Rightarrow> io \<Rightarrow> io" where
  "Client_update c message s =
     s\<lparr>cout := cout s @ ''Notification for '' @ name c @ '': '' @ message @ endl\<rparr>"

definition getName :: "Client \<Rightarrow> string" where
  "getName c = name c"

subsection \<open>Service states\<close>

datatype ServiceState = ScheduledState | InProgressState | CompletedState

fun ServiceState_getStatus :: "ServiceState \<Rightarrow> string" where
  "ServiceState_getStatus ScheduledState = ''Scheduled''"
| "ServiceState_getStatus InProgressState = ''In Progress''"
| "ServiceState_getStatus CompletedState = ''Completed''"

subsection \<open>Services\<close>

text \<open>
  The fields of the base class \<^verbatim>\<open>Service\<close>; each derived class is a constructor of
  the datatype carrying them, \<^verbatim>\<open>EngineRepair\<close> with its own \<^verbatim>\<open>repairType\<close>.

  \<^verbatim>\<open>double\<close> is modelled as \<open>real\<close>. The only arithmetic of the program is
  \<^verbatim>\<open>baseCost * 1.5\<close>; for the values the constructors store, both operands and the
  product are integers or half-integers far below \<open>2^53\<close>, which binary64 holds and
  multiplies without rounding (lemma \<open>constructed_cost_exact\<close> below).
\<close>

record Service_base =
  serviceType :: string
  baseCost :: real
  partsRequired :: "string list"

datatype Service = OilChange Service_base | EngineRepair Service_base string

text \<open>The base-class constructor \<^verbatim>\<open>Service(type, cost)\<close>: the parts list starts empty.\<close>

definition Service_init :: "string \<Rightarrow> real \<Rightarrow> Service_base" where
  "Service_init type cost = \<lparr>serviceType = type, baseCost = cost, partsRequired = []\<rparr>"

definition OilChange_new :: Service where
  "OilChange_new =
     OilChange ((Service_init ''Oil Change'' 50)\<lparr>partsRequired := [''Oil Filter'', ''Engine Oil'']\<rparr>)"

definition EngineRepair_new :: "string \<Rightarrow> Service" where
  "EngineRepair_new type =
     EngineRepair ((Service_init ''Engine Repair'' 200)\<lparr>partsRequired := [''Engine Parts'', ''Lubricants'']\<rparr>)
       type"

text \<open>
  \<^verbatim>\<open>calculateCost\<close> is a non-const virtual method: the model returns the value, the
  object after the call and the streams after the call. \<^verbatim>\<open>getDescription\<close> is const:
  it returns the value and the streams.
\<close>

fun calculateCost :: "Service \<Rightarrow> io \<Rightarrow> real \<times> Service \<times> io" where
  "calculateCost (OilChange b) s = (baseCost b, OilChange b, s)"
| "calculateCost (EngineRepair b rt) s = (baseCost b * 1.5, EngineRepair b rt, s)"

fun getDescription :: "Service \<Rightarrow> io \<Rightarrow> string \<times> io" where
  "getDescription (OilChange b) s = (''Standard Oil Change Service'', s)"
| "getDescription (EngineRepair b rt) s = (''Engine Repair: '' @ rt, s)"

subsection \<open>Appointments\<close>

record ServiceAppointment =
  client :: Client
  vehicleNumber :: string
  service :: Service
  scheduledDate :: string
  currentState :: ServiceState

definition ServiceAppointment_new ::
  "Client \<Rightarrow> string \<Rightarrow> Service \<Rightarrow> string \<Rightarrow> ServiceAppointment" where
  "ServiceAppointment_new cl vehicleNum sv date =
     \<lparr>client = cl, vehicleNumber = vehicleNum, service = sv, scheduledDate = date,
      currentState = ScheduledState\<rparr>"

definition setState :: "ServiceState \<Rightarrow> ServiceAppointment \<Rightarrow> ServiceAppointment" where
  "setState newState apt = apt\<lparr>currentState := newState\<rparr>"

text \<open>\<^verbatim>\<open>nextState\<close> of the three state classes, dispatched on the current state object.\<close>

fun nextState :: "ServiceState \<Rightarrow> ServiceAppointment \<Rightarrow> ServiceAppointment" where
  "nextState ScheduledState apt = setState InProgressState apt"
| "nextState InProgressState apt = setState CompletedState apt"
| "nextState CompletedState apt = apt"

definition progressState :: "ServiceAppointment \<Rightarrow> ServiceAppointment" where
  "progressState apt = nextState (currentState apt) apt"

definition getStatus :: "ServiceAppointment \<Rightarrow> string" where
  "getStatus apt = ServiceState_getStatus (currentState apt)"

definition getClient :: "ServiceAppointment \<Rightarrow> Client" where
  "getClient apt = client apt"

definition getVehicleNumber :: "ServiceAppointment \<Rightarrow> string" where
  "getVehicleNumber apt = vehicleNumber apt"

definition getService :: "ServiceAppointment \<Rightarrow> Service" where
  "getService apt = service apt"

definition getScheduledDate :: "ServiceAppointment \<Rightarrow> string" where
  "getScheduledDate apt = scheduledDate apt"

subsection \<open>The service center\<close>

text \<open>
  \<^verbatim>\<open>appointments\<close> is a vector of shared pointers. Every pointer in it comes from its
  own \<^verbatim>\<open>make_shared\<close> in \<^verbatim>\<open>addAppointment\<close> and is handed to nobody else, so no two
  elements alias and the vector is modelled as the list of the objects.
\<close>

record ServiceCenter =
  appointments :: "ServiceAppointment list"
  isOpen :: bool

definition ServiceCenter_new :: ServiceCenter where
  "ServiceCenter_new = \<lparr>appointments = [], isOpen = True\<rparr>"

text \<open>The conflict loop of \<^verbatim>\<open>addAppointment\<close>: the first colliding element throws.\<close>

fun conflictCheck :: "ServiceAppointment list \<Rightarrow> string \<Rightarrow> string \<Rightarrow> exception option" where
  "conflictCheck [] vehicleNum date = None"
| "conflictCheck (apt # rest) vehicleNum date =
     (if getScheduledDate apt = date \<and> getVehicleNumber apt = vehicleNum
      then Some (runtime_error
        ''Scheduling conflict: Vehicle already has an appointment on this date'')
      else conflictCheck rest vehicleNum date)"

definition addAppointment ::
  "Client \<Rightarrow> string \<Rightarrow> Service \<Rightarrow> string \<Rightarrow> ServiceCenter \<Rightarrow> io
     \<Rightarrow> (exception + unit) \<times> ServiceCenter \<times> io" where
  "addAppointment cl vehicleNum sv date c s =
     (case conflictCheck (appointments c) vehicleNum date of
        Some e \<Rightarrow> (Inl e, c, s)
      | None \<Rightarrow>
          (let appointment = ServiceAppointment_new cl vehicleNum sv date;
               c1 = c\<lparr>appointments := appointments c @ [appointment]\<rparr>;
               s1 = Client_update cl (''Appointment scheduled for '' @ date) s
           in (Inr (), c1, s1)))"

text \<open>The body of the loop of \<^verbatim>\<open>viewAppointments\<close>, and the loop.\<close>

definition printAppointment :: "ServiceAppointment \<Rightarrow> io \<Rightarrow> io" where
  "printAppointment apt s =
     (let s1 = print (endl @ ''Vehicle: '') s;
          s2 = print (getVehicleNumber apt) s1;
          s3 = print (endl @ ''Client: '') s2;
          s4 = print (getName (getClient apt)) s3;
          s5 = print (endl @ ''Service: '') s4;
          (d, s6) = getDescription (getService apt) s5;
          s7 = print d s6;
          s8 = print (endl @ ''Date: '') s7;
          s9 = print (getScheduledDate apt) s8;
          s10 = print (endl @ ''Status: '') s9;
          s11 = print (getStatus apt) s10
      in print endl s11)"

fun viewLoop :: "ServiceAppointment list \<Rightarrow> io \<Rightarrow> io" where
  "viewLoop [] s = s"
| "viewLoop (apt # rest) s = viewLoop rest (printAppointment apt s)"

definition viewAppointments :: "ServiceCenter \<Rightarrow> io \<Rightarrow> ServiceCenter \<times> io" where
  "viewAppointments c s = (c, viewLoop (appointments c) s)"

subsection \<open>The interactive loop\<close>

text \<open>
  One iteration of \<^verbatim>\<open>main\<close>'s loop after \<^verbatim>\<open>cin >> option; cin.ignore()\<close>: the parsed
  option is a parameter. \<open>promptLine\<close> is a prompt followed by \<^verbatim>\<open>getline\<close>;
  \<open>readRequest\<close> is the five of them at the head of the schedule branch.
\<close>

definition promptLine :: "string \<Rightarrow> io \<Rightarrow> string \<times> io" where
  "promptLine txt s = getline (print txt s)"

definition readRequest :: "io \<Rightarrow> (string \<times> string \<times> string \<times> string \<times> string) \<times> io" where
  "readRequest s =
     (let (clientName, s1) = promptLine ''Enter client name: '' s;
          (contactNo, s2) = promptLine ''Enter contact number: '' s1;
          (vehicleNum, s3) = promptLine ''Enter vehicle number: '' s2;
          (date, s4) = promptLine ''Enter appointment date (DD-MM-YYYY): '' s3;
          (serviceType, s5) = promptLine ''Enter service type (oil/engine): '' s4
      in ((clientName, contactNo, vehicleNum, date, serviceType), s5))"

text \<open>The schedule branch (\<^verbatim>\<open>option == 1\<close>) inside the \<^verbatim>\<open>try\<close> block.\<close>

definition scheduleBranch :: "ServiceCenter \<Rightarrow> io \<Rightarrow> (exception + unit) \<times> ServiceCenter \<times> io" where
  "scheduleBranch c s =
     (let ((clientName, contactNo, vehicleNum, date, serviceType), s5) = readRequest s;
          cl = Client_new clientName contactNo
      in if serviceType = ''oil'' then
           (case addAppointment cl vehicleNum OilChange_new date c s5 of
              (Inl e, c1, s6) \<Rightarrow> (Inl e, c1, s6)
            | (Inr u, c1, s6) \<Rightarrow>
                (Inr (), c1, print (''Appointment scheduled successfully!'' @ endl) s6))
         else if serviceType = ''engine'' then
           (let (repairType, s6) = promptLine ''Enter engine repair type: '' s5
            in case addAppointment cl vehicleNum (EngineRepair_new repairType) date c s6 of
                 (Inl e, c1, s7) \<Rightarrow> (Inl e, c1, s7)
               | (Inr u, c1, s7) \<Rightarrow>
                   (Inr (), c1, print (''Appointment scheduled successfully!'' @ endl) s7))
         else (Inl (invalid_argument ''Invalid service type''), c, s5))"

datatype control = Continue | Break

definition tryBlock :: "int \<Rightarrow> ServiceCenter \<Rightarrow> io \<Rightarrow> (exception + control) \<times> ServiceCenter \<times> io" where
  "tryBlock option c s =
     (if option = 1 then
        (case scheduleBranch c s of
           (Inl e, c1, s1) \<Rightarrow> (Inl e, c1, s1)
         | (Inr u, c1, s1) \<Rightarrow> (Inr Continue, c1, s1))
      else if option = 2 then
        (case viewAppointments c s of (c1, s1) \<Rightarrow> (Inr Continue, c1, s1))
      else if option = 3 then (Inr Break, c, print (''Exiting system...'' @ endl) s)
      else (Inr Continue, c, print (''Invalid option!'' @ endl) s))"

text \<open>The \<^verbatim>\<open>try\<close> block with its handler, which prints the message to \<^verbatim>\<open>cerr\<close>.\<close>

definition iteration :: "int \<Rightarrow> ServiceCenter \<Rightarrow> io \<Rightarrow> control \<times> ServiceCenter \<times> io" where
  "iteration option c s =
     (case tryBlock option c s of
        (Inl e, c1, s1) \<Rightarrow> (Continue, c1, s1\<lparr>cerr := cerr s1 @ ''Error: '' @ what e @ endl\<rparr>)
      | (Inr k, c1, s1) \<Rightarrow> (k, c1, s1))"

section \<open>Auxiliary notions used by the statements\<close>

text \<open>The base-class part of a service object.\<close>

fun base :: "Service \<Rightarrow> Service_base" where
  "base (OilChange b) = b"
| "base (EngineRepair b rt) = b"

text \<open>
  The position of a state in the lifecycle Scheduled, In Progress, Completed. The
  program has no such number; it is the measure against which forward movement is
  stated.
\<close>

fun stateRank :: "ServiceState \<Rightarrow> nat" where
  "stateRank ScheduledState = 0"
| "stateRank InProgressState = 1"
| "stateRank CompletedState = 2"

text \<open>
  A caller that issues a sequence of \<^verbatim>\<open>addAppointment\<close> calls, catching the exception
  of each as the handler of \<^verbatim>\<open>main\<close> does, and keeps the outcome of every call.
\<close>

type_synonym request = "Client \<times> string \<times> Service \<times> string"

fun scheduleAll ::
  "request list \<Rightarrow> ServiceCenter \<Rightarrow> io \<Rightarrow> (exception + unit) list \<times> ServiceCenter \<times> io" where
  "scheduleAll [] c s = ([], c, s)"
| "scheduleAll ((cl, vehicleNum, sv, date) # rest) c s =
     (case addAppointment cl vehicleNum sv date c s of
        (r, c1, s1) \<Rightarrow>
          (case scheduleAll rest c1 s1 of (rs, c2, s2) \<Rightarrow> (r # rs, c2, s2)))"

text \<open>The requests of a run whose call returned normally, in call order.\<close>

fun accepted :: "request list \<Rightarrow> (exception + unit) list \<Rightarrow> request list" where
  "accepted (q # qs) (Inr u # rs) = q # accepted qs rs"
| "accepted (q # qs) (Inl e # rs) = accepted qs rs"
| "accepted qs rs = []"

definition appointmentOf :: "request \<Rightarrow> ServiceAppointment" where
  "appointmentOf q = (case q of (cl, vehicleNum, sv, date) \<Rightarrow>
     ServiceAppointment_new cl vehicleNum sv date)"

text \<open>
  The effect on the center of calling \<^verbatim>\<open>progressState\<close> through the \<open>i\<close>-th stored
  pointer (\<open>i\<close> below the size of the vector): that object changes, in place.
\<close>

definition progressStored :: "nat \<Rightarrow> ServiceCenter \<Rightarrow> ServiceCenter" where
  "progressStored i c =
     c\<lparr>appointments := (appointments c)[i := progressState (appointments c ! i)]\<rparr>"

text \<open>The text that the five prompts of the schedule branch write.\<close>

definition requestPrompts :: string where
  "requestPrompts =
     ''Enter client name: '' @ ''Enter contact number: '' @ ''Enter vehicle number: '' @
     ''Enter appointment date (DD-MM-YYYY): '' @ ''Enter service type (oil/engine): ''"

text \<open>
  Example inputs: streams with nothing to read and nothing written, and the three calls
  of the scenario of the specification (a booking, a colliding one, one on another day).
\<close>

definition emptyIO :: io where
  "emptyIO = \<lparr>cin = \<lparr>pending = [], failbit = False\<rparr>, cout = [], cerr = []\<rparr>"

definition scenario :: "request list" where
  "scenario =
     [(Client_new ''Alice'' ''111'', ''KA01'', OilChange_new, ''01-01-2025''),
      (Client_new ''Bob'' ''222'', ''KA01'', OilChange_new, ''01-01-2025''),
      (Client_new ''Bob'' ''222'', ''KA01'', EngineRepair_new ''gasket'', ''02-01-2025'')]"

section \<open>The registry: conflicts, insertion, the uniqueness invariant\<close>

lemma conflictCheck_None_iff:
  "conflictCheck apts v d = None \<longleftrightarrow>
     (\<forall>apt \<in> set apts. \<not> (vehicleNumber apt = v \<and> scheduledDate apt = d))"
  by (induction apts) (auto simp: getScheduledDate_def getVehicleNumber_def)

lemma conflictCheck_Some:
  "conflictCheck apts v d = Some e \<Longrightarrow>
     e = runtime_error ''Scheduling conflict: Vehicle already has an appointment on this date''"
  by (induction apts) (auto split: if_splits)

lemma addAppointment_keys:
  assumes "distinct (map (\<lambda>a. (vehicleNumber a, scheduledDate a)) (appointments c))"
  shows "distinct (map (\<lambda>a. (vehicleNumber a, scheduledDate a))
           (appointments (fst (snd (addAppointment cl v sv d c s)))))"
proof (cases "conflictCheck (appointments c) v d")
  case None
  then have "(v, d) \<notin> set (map (\<lambda>a. (vehicleNumber a, scheduledDate a)) (appointments c))"
    by (auto simp: conflictCheck_None_iff)
  with assms None show ?thesis
    by (simp add: addAppointment_def ServiceAppointment_new_def Let_def)
next
  case (Some e)
  with assms show ?thesis by (simp add: addAppointment_def)
qed

lemma scheduleAll_keys:
  "distinct (map (\<lambda>a. (vehicleNumber a, scheduledDate a)) (appointments c)) \<Longrightarrow>
   distinct (map (\<lambda>a. (vehicleNumber a, scheduledDate a))
     (appointments (fst (snd (scheduleAll reqs c s)))))"
proof (induction reqs arbitrary: c s)
  case Nil
  then show ?case by simp
next
  case (Cons q reqs)
  obtain cl v sv d where q: "q = (cl, v, sv, d)" by (cases q) auto
  obtain r c1 s1 where a: "addAppointment cl v sv d c s = (r, c1, s1)"
    by (cases "addAppointment cl v sv d c s") auto
  have "distinct (map (\<lambda>a. (vehicleNumber a, scheduledDate a)) (appointments c1))"
    using addAppointment_keys [OF Cons.prems, of cl v sv d s] a by simp
  from Cons.IH [OF this, of s1] show ?case
    by (cases "scheduleAll reqs c1 s1") (simp add: q a)
qed

lemma scenario_run:
  "scheduleAll scenario ServiceCenter_new emptyIO =
     ([Inr (),
       Inl (runtime_error ''Scheduling conflict: Vehicle already has an appointment on this date''),
       Inr ()],
      \<lparr>appointments =
         [ServiceAppointment_new (Client_new ''Alice'' ''111'') ''KA01'' OilChange_new ''01-01-2025'',
          ServiceAppointment_new (Client_new ''Bob'' ''222'') ''KA01'' (EngineRepair_new ''gasket'')
            ''02-01-2025''],
       isOpen = True\<rparr>,
      \<lparr>cin = \<lparr>pending = [], failbit = False\<rparr>,
       cout = ''Notification for Alice: Appointment scheduled for 01-01-2025'' @ endl @
              ''Notification for Bob: Appointment scheduled for 02-01-2025'' @ endl,
       cerr = []\<rparr>)"
  by (simp add: scenario_def ServiceCenter_new_def emptyIO_def addAppointment_def
    ServiceAppointment_new_def Client_update_def Client_new_def getScheduledDate_def
    getVehicleNumber_def)


text \<open>
  Claim C1. Whatever sequence of \<^verbatim>\<open>addAppointment\<close> calls is made on a new service
  center, rejected calls included, the stored appointments are pairwise distinct in
  their pair of vehicle number and scheduled date.
\<close>

theorem C1_no_duplicate_vehicle_date:
  "scheduleAll reqs ServiceCenter_new s = (rs, c, s1) \<Longrightarrow>
   distinct (map (\<lambda>a. (vehicleNumber a, scheduledDate a)) (appointments c))"
  using scheduleAll_keys [of ServiceCenter_new reqs s]
  by (simp add: ServiceCenter_new_def)

theorem C1_witness:
  "scheduleAll scenario ServiceCenter_new emptyIO =
     ([Inr (),
       Inl (runtime_error ''Scheduling conflict: Vehicle already has an appointment on this date''),
       Inr ()],
      \<lparr>appointments =
         [ServiceAppointment_new (Client_new ''Alice'' ''111'') ''KA01'' OilChange_new ''01-01-2025'',
          ServiceAppointment_new (Client_new ''Bob'' ''222'') ''KA01'' (EngineRepair_new ''gasket'')
            ''02-01-2025''],
       isOpen = True\<rparr>,
      \<lparr>cin = \<lparr>pending = [], failbit = False\<rparr>,
       cout = ''Notification for Alice: Appointment scheduled for 01-01-2025'' @ endl @
              ''Notification for Bob: Appointment scheduled for 02-01-2025'' @ endl,
       cerr = []\<rparr>) \<and>
   distinct (map (\<lambda>a. (vehicleNumber a, scheduledDate a))
     [ServiceAppointment_new (Client_new ''Alice'' ''111'') ''KA01'' OilChange_new ''01-01-2025'',
      ServiceAppointment_new (Client_new ''Bob'' ''222'') ''KA01'' (EngineRepair_new ''gasket'')
        ''02-01-2025''])"
  using scenario_run C1_no_duplicate_vehicle_date [OF scenario_run] by simp

text \<open>
  Claim C2. \<^verbatim>\<open>addAppointment\<close> throws the scheduling-conflict error exactly when a stored
  appointment has the given vehicle number and the given date. It throws nothing else,
  and when it throws, the center and the streams are what they were before the call:
  nothing is appended and the client is not notified.
\<close>

theorem C2_conflict_iff:
  "(fst (addAppointment cl v sv d c s) =
      Inl (runtime_error ''Scheduling conflict: Vehicle already has an appointment on this date'')
    \<longleftrightarrow> (\<exists>apt \<in> set (appointments c). vehicleNumber apt = v \<and> scheduledDate apt = d)) \<and>
   (\<forall>e. fst (addAppointment cl v sv d c s) = Inl e \<longrightarrow>
      e = runtime_error ''Scheduling conflict: Vehicle already has an appointment on this date'' \<and>
      addAppointment cl v sv d c s = (Inl e, c, s))"
proof (cases "conflictCheck (appointments c) v d")
  case None
  moreover from None
  have "\<not> (\<exists>apt \<in> set (appointments c). vehicleNumber apt = v \<and> scheduledDate apt = d)"
    by (simp add: conflictCheck_None_iff)
  ultimately show ?thesis
    by (simp add: addAppointment_def Let_def)
next
  case (Some e)
  then have "conflictCheck (appointments c) v d \<noteq> None" by simp
  then have "\<exists>apt \<in> set (appointments c). vehicleNumber apt = v \<and> scheduledDate apt = d"
    unfolding conflictCheck_None_iff by blast
  moreover note conflictCheck_Some [OF Some]
  ultimately show ?thesis
    using Some by (simp add: addAppointment_def)
qed

theorem C2_witness:
  "fst (addAppointment (Client_new ''Bob'' ''222'') ''KA01'' OilChange_new ''01-01-2025''
         (ServiceCenter_new\<lparr>appointments :=
            [ServiceAppointment_new (Client_new ''Alice'' ''111'') ''KA01'' OilChange_new ''01-01-2025'']\<rparr>)
         emptyIO) =
     Inl (runtime_error ''Scheduling conflict: Vehicle already has an appointment on this date'') \<and>
   addAppointment (Client_new ''Bob'' ''222'') ''KA01'' OilChange_new ''01-01-2025''
         (ServiceCenter_new\<lparr>appointments :=
            [ServiceAppointment_new (Client_new ''Alice'' ''111'') ''KA01'' OilChange_new ''01-01-2025'']\<rparr>)
         emptyIO =
     (Inl (runtime_error ''Scheduling conflict: Vehicle already has an appointment on this date''),
      ServiceCenter_new\<lparr>appointments :=
            [ServiceAppointment_new (Client_new ''Alice'' ''111'') ''KA01'' OilChange_new ''01-01-2025'']\<rparr>,
      emptyIO)"
proof -
  let ?c = "ServiceCenter_new\<lparr>appointments :=
            [ServiceAppointment_new (Client_new ''Alice'' ''111'') ''KA01'' OilChange_new ''01-01-2025'']\<rparr>"
  let ?call = "addAppointment (Client_new ''Bob'' ''222'') ''KA01'' OilChange_new ''01-01-2025'' ?c emptyIO"
  have booked: "\<exists>apt \<in> set (appointments ?c).
      vehicleNumber apt = ''KA01'' \<and> scheduledDate apt = ''01-01-2025''"
    by (simp add: ServiceAppointment_new_def)
  note inst = C2_conflict_iff [of "Client_new ''Bob'' ''222''" "''KA01''" OilChange_new
    "''01-01-2025''" ?c emptyIO]
  from inst booked have raised: "fst ?call =
     Inl (runtime_error ''Scheduling conflict: Vehicle already has an appointment on this date'')"
    by blast
  with inst have "?call =
     (Inl (runtime_error ''Scheduling conflict: Vehicle already has an appointment on this date''),
      ?c, emptyIO)"
    by blast
  with raised show ?thesis by blast
qed



section \<open>The appointment lifecycle\<close>

lemma progressState_state:
  "currentState (progressState apt) =
     (case currentState apt of
        ScheduledState \<Rightarrow> InProgressState
      | InProgressState \<Rightarrow> CompletedState
      | CompletedState \<Rightarrow> CompletedState)"
  by (cases "currentState apt") (simp_all add: progressState_def setState_def)

lemma progressState_rank:
  "stateRank (currentState (progressState apt)) = min 2 (stateRank (currentState apt) + 1)"
  by (cases "currentState apt") (simp_all add: progressState_state)

lemma progressState_funpow_rank:
  "stateRank (currentState ((progressState ^^ n) apt)) =
     min 2 (stateRank (currentState apt) + n)"
proof (induction n)
  case 0
  show ?case by (cases "currentState apt") simp_all
next
  case (Suc n)
  then show ?case by (simp add: progressState_rank)
qed

lemma progressState_completed:
  "currentState apt = CompletedState \<Longrightarrow> progressState apt = apt"
  by (simp add: progressState_def)

text \<open>
  Claim C4. \<^verbatim>\<open>progressState\<close> moves Scheduled to In Progress, In Progress to Completed,
  and changes nothing in Completed. Three calls on a new appointment give the status
  \<^verbatim>\<open>Completed\<close> and a fourth changes nothing. After any number \<open>n\<close> of calls the
  position in the lifecycle is the starting position plus \<open>n\<close>, capped at Completed:
  no call moves backward and no state is skipped.
\<close>

theorem C4_lifecycle_advances_one_step:
  "currentState (progressState apt) =
     (case currentState apt of
        ScheduledState \<Rightarrow> InProgressState
      | InProgressState \<Rightarrow> CompletedState
      | CompletedState \<Rightarrow> CompletedState) \<and>
   (currentState apt = CompletedState \<longrightarrow> progressState apt = apt) \<and>
   getStatus ((progressState ^^ 3) (ServiceAppointment_new cl v sv d)) = ''Completed'' \<and>
   (progressState ^^ 4) (ServiceAppointment_new cl v sv d) =
     (progressState ^^ 3) (ServiceAppointment_new cl v sv d) \<and>
   stateRank (currentState ((progressState ^^ n) apt)) =
     min 2 (stateRank (currentState apt) + n)"
proof -
  have three: "currentState ((progressState ^^ 3) (ServiceAppointment_new cl v sv d)) = CompletedState"
    by (simp add: numeral_3_eq_3 progressState_state ServiceAppointment_new_def)
  have "(progressState ^^ 4) (ServiceAppointment_new cl v sv d) =
      progressState ((progressState ^^ 3) (ServiceAppointment_new cl v sv d))"
    by (simp add: numeral_Bit0 numeral_3_eq_3)
  with three have four: "(progressState ^^ 4) (ServiceAppointment_new cl v sv d) =
     (progressState ^^ 3) (ServiceAppointment_new cl v sv d)"
    by (simp add: progressState_completed)
  from three have "getStatus ((progressState ^^ 3) (ServiceAppointment_new cl v sv d)) = ''Completed''"
    by (simp add: getStatus_def)
  with four show ?thesis
    by (simp add: progressState_state progressState_completed progressState_funpow_rank
      del: funpow.simps)
qed

theorem C4_witness:
  "currentState (progressState (setState CompletedState
      (ServiceAppointment_new (Client_new ''Alice'' ''111'') ''KA01'' OilChange_new ''01-01-2025''))) =
     CompletedState \<and>
   progressState (setState CompletedState
      (ServiceAppointment_new (Client_new ''Alice'' ''111'') ''KA01'' OilChange_new ''01-01-2025'')) =
     setState CompletedState
      (ServiceAppointment_new (Client_new ''Alice'' ''111'') ''KA01'' OilChange_new ''01-01-2025'') \<and>
   currentState (progressState
      (ServiceAppointment_new (Client_new ''Alice'' ''111'') ''KA01'' OilChange_new ''01-01-2025'')) =
     InProgressState"
  using C4_lifecycle_advances_one_step [of "setState CompletedState
      (ServiceAppointment_new (Client_new ''Alice'' ''111'') ''KA01'' OilChange_new ''01-01-2025'')"
      "Client_new ''Alice'' ''111''" "''KA01''" OilChange_new "''01-01-2025''" 0]
  by (simp add: setState_def ServiceAppointment_new_def progressState_def)

text \<open>
  What \<^verbatim>\<open>progressState\<close> leaves alone, on one appointment and on the stored ones.
\<close>

lemma progressState_fields:
  "client (progressState apt) = client apt \<and>
   vehicleNumber (progressState apt) = vehicleNumber apt \<and>
   service (progressState apt) = service apt \<and>
   scheduledDate (progressState apt) = scheduledDate apt"
  by (cases "currentState apt") (simp_all add: progressState_def setState_def)

lemma progressState_funpow_fields:
  "client ((progressState ^^ n) apt) = client apt \<and>
   vehicleNumber ((progressState ^^ n) apt) = vehicleNumber apt \<and>
   service ((progressState ^^ n) apt) = service apt \<and>
   scheduledDate ((progressState ^^ n) apt) = scheduledDate apt"
  by (induction n) (simp_all add: progressState_fields)

lemma progressState_funpow_frame:
  "(progressState ^^ n) apt = apt\<lparr>currentState := currentState ((progressState ^^ n) apt)\<rparr>"
  by (rule ServiceAppointment.equality) (simp_all add: progressState_funpow_fields)

lemma progressStored_frame:
  "length (appointments (progressStored i c)) = length (appointments c) \<and>
   map (\<lambda>a. (client a, vehicleNumber a, service a, scheduledDate a))
     (appointments (progressStored i c)) =
   map (\<lambda>a. (client a, vehicleNumber a, service a, scheduledDate a)) (appointments c) \<and>
   isOpen (progressStored i c) = isOpen c"
proof -
  let ?f = "\<lambda>a. (client a, vehicleNumber a, service a, scheduledDate a)"
  let ?xs = "appointments c"
  have same: "?f (progressState a) = ?f a" for a
    by (simp add: progressState_fields)
  have "map ?f (?xs[i := progressState (?xs ! i)]) = map ?f ?xs"
  proof (cases "i < length ?xs")
    case True
    have "map ?f (?xs[i := progressState (?xs ! i)]) = (map ?f ?xs)[i := ?f (progressState (?xs ! i))]"
      by (rule map_update)
    also have "\<dots> = (map ?f ?xs)[i := ?f (?xs ! i)]"
      by (simp only: same)
    also have "\<dots> = (map ?f ?xs)[i := (map ?f ?xs) ! i]"
      using True by (simp only: nth_map)
    also have "\<dots> = map ?f ?xs"
      by (rule list_update_id)
    finally show ?thesis .
  next
    case False
    then have "length ?xs \<le> i" by arith
    then have "?xs[i := progressState (?xs ! i)] = ?xs"
      by (rule list_update_beyond)
    then show ?thesis by (rule arg_cong)
  qed
  then show ?thesis by (simp add: progressStored_def)
qed

lemma fold_progressStored_frame:
  "length (appointments (fold progressStored idxs c)) = length (appointments c) \<and>
   map (\<lambda>a. (client a, vehicleNumber a, service a, scheduledDate a))
     (appointments (fold progressStored idxs c)) =
   map (\<lambda>a. (client a, vehicleNumber a, service a, scheduledDate a)) (appointments c) \<and>
   isOpen (fold progressStored idxs c) = isOpen c"
proof (induction idxs arbitrary: c)
  case Nil
  show ?case by simp
next
  case (Cons i idxs)
  show ?case
    using Cons.IH [of "progressStored i c"] progressStored_frame [of i c] by simp
qed

section \<open>Service cost and description\<close>

lemma constructed_cost_exact:
  "fst (calculateCost OilChange_new s) \<in> \<int> \<and> \<bar>fst (calculateCost OilChange_new s)\<bar> < 2 ^ 53 \<and>
   fst (calculateCost (EngineRepair_new x) s) \<in> \<int> \<and>
   \<bar>fst (calculateCost (EngineRepair_new x) s)\<bar> < 2 ^ 53"
  by (simp add: OilChange_new_def EngineRepair_new_def Service_init_def)

text \<open>
  Claim C5. The cost of a constructed \<^verbatim>\<open>OilChange\<close> is 50. For every string \<open>x\<close>, the
  cost of \<^verbatim>\<open>EngineRepair(x)\<close> is 300, which is 1.5 times its base cost of 200, and its
  description is \<^verbatim>\<open>Engine Repair: \<close> followed by \<open>x\<close>, so it has \<open>x\<close> as a contiguous
  part.
\<close>

theorem C5_costs_and_description:
  "fst (calculateCost OilChange_new s) = 50 \<and>
   baseCost (base (EngineRepair_new x)) = 200 \<and>
   fst (calculateCost (EngineRepair_new x) s) = 1.5 * baseCost (base (EngineRepair_new x)) \<and>
   fst (calculateCost (EngineRepair_new x) s) = 300 \<and>
   fst (getDescription (EngineRepair_new x) s) = ''Engine Repair: '' @ x \<and>
   sublist x (fst (getDescription (EngineRepair_new x) s))"
proof -
  have descr: "fst (getDescription (EngineRepair_new x) s) = ''Engine Repair: '' @ x"
    by (simp add: EngineRepair_new_def)
  have "sublist x (''Engine Repair: '' @ x)"
    by (rule sublist_append_leftI)
  then have part: "sublist x (fst (getDescription (EngineRepair_new x) s))"
    by (simp only: descr)
  have costs: "fst (calculateCost OilChange_new s) = 50"
    "baseCost (base (EngineRepair_new x)) = 200"
    "fst (calculateCost (EngineRepair_new x) s) = 1.5 * baseCost (base (EngineRepair_new x))"
    "fst (calculateCost (EngineRepair_new x) s) = 300"
    by (simp_all add: OilChange_new_def EngineRepair_new_def Service_init_def)
  from costs descr part show ?thesis by blast
qed

text \<open>
  Claim C6. \<^verbatim>\<open>calculateCost\<close> and \<^verbatim>\<open>getDescription\<close> leave the service object and the
  streams as they were, and their results depend on the object alone: calls made in
  different stream states, and a second call right after a first, return the same
  value.
\<close>

theorem C6_cost_and_description_pure:
  "calculateCost sv s = (fst (calculateCost sv s0), sv, s) \<and>
   getDescription sv s = (fst (getDescription sv s0), s) \<and>
   (case calculateCost sv s of (r1, sv1, s1) \<Rightarrow>
      case calculateCost sv1 s1 of (r2, sv2, s2) \<Rightarrow> r2 = r1 \<and> sv2 = sv \<and> s2 = s) \<and>
   (case getDescription sv s of (d1, s1) \<Rightarrow>
      case getDescription sv s1 of (d2, s2) \<Rightarrow> d2 = d1 \<and> s2 = s)"
  by (cases sv) simp_all

section \<open>Listing the appointments\<close>

lemma printAppointment_eq:
  "printAppointment apt s =
     s\<lparr>cout := cout s @ endl @ ''Vehicle: '' @ vehicleNumber apt @
                endl @ ''Client: '' @ name (client apt) @
                endl @ ''Service: '' @ fst (getDescription (service apt) s0) @
                endl @ ''Date: '' @ scheduledDate apt @
                endl @ ''Status: '' @ getStatus apt @ endl\<rparr>"
  by (cases "service apt")
     (simp_all add: printAppointment_def print_def getVehicleNumber_def getName_def
        getClient_def getService_def getScheduledDate_def)

lemma viewLoop_eq:
  "viewLoop apts s =
     s\<lparr>cout := cout s @ concat (map (\<lambda>apt.
          endl @ ''Vehicle: '' @ vehicleNumber apt @
          endl @ ''Client: '' @ name (client apt) @
          endl @ ''Service: '' @ fst (getDescription (service apt) s0) @
          endl @ ''Date: '' @ scheduledDate apt @
          endl @ ''Status: '' @ getStatus apt @ endl) apts)\<rparr>"
proof (induction apts arbitrary: s)
  case Nil
  show ?case by simp
next
  case (Cons apt apts)
  show ?case
    by (simp add: Cons.IH printAppointment_eq [of apt s s0])
qed

lemma scheduleAll_appointments:
  "scheduleAll reqs c s = (rs, c1, s1) \<Longrightarrow>
   length rs = length reqs \<and>
   appointments c1 = appointments c @ map appointmentOf (accepted reqs rs) \<and>
   length (accepted reqs rs) = length (filter (\<lambda>r. \<not> isl r) rs) \<and>
   isOpen c1 = isOpen c"
proof (induction reqs arbitrary: c s rs c1 s1)
  case Nil
  then show ?case by simp
next
  case (Cons q reqs)
  obtain cl v sv d where q: "q = (cl, v, sv, d)" by (cases q) auto
  obtain r ca sa where a: "addAppointment cl v sv d c s = (r, ca, sa)"
    by (cases "addAppointment cl v sv d c s") auto
  obtain rs' cb sb where b: "scheduleAll reqs ca sa = (rs', cb, sb)"
    by (cases "scheduleAll reqs ca sa") auto
  from Cons.prems q a b have eqs: "rs = r # rs'" "c1 = cb" "s1 = sb" by simp_all
  note ih = Cons.IH [OF b]
  show ?case
  proof (cases "conflictCheck (appointments c) v d")
    case None
    with a have "r = Inr ()" "ca = c\<lparr>appointments := appointments c @ [appointmentOf q]\<rparr>"
      by (simp_all add: addAppointment_def Let_def appointmentOf_def q)
    with ih eqs show ?thesis by simp
  next
    case (Some e)
    with a have "r = Inl e" "ca = c" by (simp_all add: addAppointment_def)
    with ih eqs show ?thesis by simp
  qed
qed

lemma ServiceState_getStatus_label:
  "ServiceState_getStatus st =
     (case st of
        ScheduledState \<Rightarrow> ''Scheduled''
      | InProgressState \<Rightarrow> ''In Progress''
      | CompletedState \<Rightarrow> ''Completed'')"
  by (cases st) simp_all

lemma getDescription_text:
  "fst (getDescription sv s) =
     (case sv of
        OilChange b \<Rightarrow> ''Standard Oil Change Service''
      | EngineRepair b rt \<Rightarrow> ''Engine Repair: '' @ rt)"
  by (cases sv) simp_all

lemma viewAppointments_text:
  "viewAppointments cv s =
     (cv, s\<lparr>cout := cout s @ concat (map (\<lambda>apt.
          endl @ ''Vehicle: '' @ vehicleNumber apt @
          endl @ ''Client: '' @ name (client apt) @
          endl @ ''Service: '' @
            (case service apt of
               OilChange b \<Rightarrow> ''Standard Oil Change Service''
             | EngineRepair b rt \<Rightarrow> ''Engine Repair: '' @ rt) @
          endl @ ''Date: '' @ scheduledDate apt @
          endl @ ''Status: '' @
            (case currentState apt of
               ScheduledState \<Rightarrow> ''Scheduled''
             | InProgressState \<Rightarrow> ''In Progress''
             | CompletedState \<Rightarrow> ''Completed'') @ endl) (appointments cv))\<rparr>)"
  unfolding viewAppointments_def viewLoop_eq [of "appointments cv" s s] getStatus_def
    ServiceState_getStatus_label getDescription_text
  by (rule refl)

lemma progressed_run_appointments:
  assumes "scheduleAll reqs ServiceCenter_new s = (rs, c, s1)"
  shows "length (appointments (fold progressStored idxs c)) =
           length (filter (\<lambda>r. \<not> isl r) rs) \<and>
         map (\<lambda>a. (client a, vehicleNumber a, service a, scheduledDate a))
           (appointments (fold progressStored idxs c)) = accepted reqs rs"
proof -
  from scheduleAll_appointments [OF assms]
  have stored: "appointments c = map appointmentOf (accepted reqs rs)"
    and count: "length (accepted reqs rs) = length (filter (\<lambda>r. \<not> isl r) rs)"
    by (simp_all add: ServiceCenter_new_def)
  have "map (\<lambda>a. (client a, vehicleNumber a, service a, scheduledDate a))
      (map appointmentOf qs) = qs" for qs
    by (induction qs) (auto simp: appointmentOf_def ServiceAppointment_new_def)
  with stored have fresh: "map (\<lambda>a. (client a, vehicleNumber a, service a, scheduledDate a))
      (appointments c) = accepted reqs rs"
    by simp
  from fold_progressStored_frame [of idxs c] stored count fresh show ?thesis
    by simp
qed

text \<open>
  Claim C7. After a sequence of \<^verbatim>\<open>addAppointment\<close> calls on a new center, of which \<open>N\<close>
  returned normally, the center holds exactly the \<open>N\<close> appointments of those calls, in
  call order, and it still holds them, at the same positions and with the same client,
  vehicle number, service and date, after any sequence of \<^verbatim>\<open>progressState\<close> calls on
  stored appointments. For every center, whatever the states of its appointments,
  \<^verbatim>\<open>viewAppointments\<close> writes one block per stored appointment, in the order of the
  vector, made of its vehicle number, the name of its client, the description of its
  service, its date and the label of its current state.
\<close>

theorem C7_list_in_insertion_order:
  "scheduleAll reqs ServiceCenter_new s = (rs, c, s1) \<Longrightarrow>
   appointments c = map appointmentOf (accepted reqs rs) \<and>
   length (appointments c) = length (filter (\<lambda>r. \<not> isl r) rs) \<and>
   ((\<forall>i \<in> set idxs. i < length (appointments c)) \<longrightarrow>
      length (appointments (fold progressStored idxs c)) =
        length (filter (\<lambda>r. \<not> isl r) rs) \<and>
      map (\<lambda>a. (client a, vehicleNumber a, service a, scheduledDate a))
        (appointments (fold progressStored idxs c)) = accepted reqs rs) \<and>
   viewAppointments cv s2 =
     (cv, s2\<lparr>cout := cout s2 @ concat (map (\<lambda>apt.
          endl @ ''Vehicle: '' @ vehicleNumber apt @
          endl @ ''Client: '' @ name (client apt) @
          endl @ ''Service: '' @
            (case service apt of
               OilChange b \<Rightarrow> ''Standard Oil Change Service''
             | EngineRepair b rt \<Rightarrow> ''Engine Repair: '' @ rt) @
          endl @ ''Date: '' @ scheduledDate apt @
          endl @ ''Status: '' @
            (case currentState apt of
               ScheduledState \<Rightarrow> ''Scheduled''
             | InProgressState \<Rightarrow> ''In Progress''
             | CompletedState \<Rightarrow> ''Completed'') @ endl) (appointments cv))\<rparr>)"
proof -
  assume run: "scheduleAll reqs ServiceCenter_new s = (rs, c, s1)"
  from scheduleAll_appointments [OF run]
  have stored: "appointments c = map appointmentOf (accepted reqs rs)"
    and count: "length (appointments c) = length (filter (\<lambda>r. \<not> isl r) rs)"
    by (simp_all add: ServiceCenter_new_def)
  note progressed = progressed_run_appointments [OF run, of idxs]
  note listing = viewAppointments_text [of cv s2]
  from stored count progressed listing show ?thesis
    by (intro conjI impI) (rule stored count listing | simp only: progressed)+
qed

theorem C7_witness:
  "scheduleAll scenario ServiceCenter_new emptyIO =
     ([Inr (),
       Inl (runtime_error ''Scheduling conflict: Vehicle already has an appointment on this date''),
       Inr ()],
      \<lparr>appointments =
         [ServiceAppointment_new (Client_new ''Alice'' ''111'') ''KA01'' OilChange_new ''01-01-2025'',
          ServiceAppointment_new (Client_new ''Bob'' ''222'') ''KA01'' (EngineRepair_new ''gasket'')
            ''02-01-2025''],
       isOpen = True\<rparr>,
      \<lparr>cin = \<lparr>pending = [], failbit = False\<rparr>,
       cout = ''Notification for Alice: Appointment scheduled for 01-01-2025'' @ endl @
              ''Notification for Bob: Appointment scheduled for 02-01-2025'' @ endl,
       cerr = []\<rparr>) \<and>
   map currentState (appointments (fold progressStored [0, 0, 1]
      \<lparr>appointments =
         [ServiceAppointment_new (Client_new ''Alice'' ''111'') ''KA01'' OilChange_new ''01-01-2025'',
          ServiceAppointment_new (Client_new ''Bob'' ''222'') ''KA01'' (EngineRepair_new ''gasket'')
            ''02-01-2025''],
       isOpen = True\<rparr>)) = [CompletedState, InProgressState] \<and>
   length (appointments (fold progressStored [0, 0, 1]
      \<lparr>appointments =
         [ServiceAppointment_new (Client_new ''Alice'' ''111'') ''KA01'' OilChange_new ''01-01-2025'',
          ServiceAppointment_new (Client_new ''Bob'' ''222'') ''KA01'' (EngineRepair_new ''gasket'')
            ''02-01-2025''],
       isOpen = True\<rparr>)) = 2 \<and>
   snd (viewAppointments (fold progressStored [0, 0, 1]
      \<lparr>appointments =
         [ServiceAppointment_new (Client_new ''Alice'' ''111'') ''KA01'' OilChange_new ''01-01-2025'',
          ServiceAppointment_new (Client_new ''Bob'' ''222'') ''KA01'' (EngineRepair_new ''gasket'')
            ''02-01-2025''],
       isOpen = True\<rparr>) emptyIO) =
     emptyIO\<lparr>cout :=
       endl @ ''Vehicle: KA01'' @ endl @ ''Client: Alice'' @ endl @
       ''Service: Standard Oil Change Service'' @ endl @ ''Date: 01-01-2025'' @ endl @
       ''Status: Completed'' @ endl @
       endl @ ''Vehicle: KA01'' @ endl @ ''Client: Bob'' @ endl @
       ''Service: Engine Repair: gasket'' @ endl @ ''Date: 02-01-2025'' @ endl @
       ''Status: In Progress'' @ endl\<rparr>"
proof -
  let ?c = "\<lparr>appointments =
         [ServiceAppointment_new (Client_new ''Alice'' ''111'') ''KA01'' OilChange_new ''01-01-2025'',
          ServiceAppointment_new (Client_new ''Bob'' ''222'') ''KA01'' (EngineRepair_new ''gasket'')
            ''02-01-2025''],
       isOpen = True\<rparr>"
  let ?p = "fold progressStored [0, 0, 1] ?c"
  have progressed: "appointments ?p =
     [(ServiceAppointment_new (Client_new ''Alice'' ''111'') ''KA01'' OilChange_new ''01-01-2025'')
        \<lparr>currentState := CompletedState\<rparr>,
      (ServiceAppointment_new (Client_new ''Bob'' ''222'') ''KA01'' (EngineRepair_new ''gasket'')
        ''02-01-2025'')\<lparr>currentState := InProgressState\<rparr>]"
    by (simp add: progressStored_def progressState_def setState_def ServiceAppointment_new_def)
  have inrange: "\<forall>i \<in> set [0, 0, 1]. i < length (appointments ?c)"
    by simp
  note inst = C7_list_in_insertion_order [OF scenario_run, of "[0, 0, 1]" ?p emptyIO]
  from inst inrange have count: "length (appointments ?p) =
      length (filter (\<lambda>r. \<not> isl r) [Inr (),
       Inl (runtime_error ''Scheduling conflict: Vehicle already has an appointment on this date''),
       Inr ()])"
    by blast
  note listing = inst [THEN conjunct2, THEN conjunct2, THEN conjunct2]
  have states: "map currentState (appointments ?p) = [CompletedState, InProgressState]"
    unfolding progressed by simp
  have two: "length (appointments ?p) = 2"
    unfolding count by simp
  have out: "snd (viewAppointments ?p emptyIO) =
     emptyIO\<lparr>cout :=
       endl @ ''Vehicle: KA01'' @ endl @ ''Client: Alice'' @ endl @
       ''Service: Standard Oil Change Service'' @ endl @ ''Date: 01-01-2025'' @ endl @
       ''Status: Completed'' @ endl @
       endl @ ''Vehicle: KA01'' @ endl @ ''Client: Bob'' @ endl @
       ''Service: Engine Repair: gasket'' @ endl @ ''Date: 02-01-2025'' @ endl @
       ''Status: In Progress'' @ endl\<rparr>"
    unfolding listing snd_conv progressed
    by (simp add: emptyIO_def ServiceAppointment_new_def Client_new_def OilChange_new_def
      EngineRepair_new_def endl_def)
  from scenario_run states two out show ?thesis
    by (intro conjI)
qed

text \<open>
  Claim C8. \<^verbatim>\<open>viewAppointments\<close> returns the center it was given, with every appointment
  as before; of the streams it touches \<^verbatim>\<open>cout\<close> only.
\<close>

theorem C8_list_leaves_registry_unchanged:
  "fst (viewAppointments c s) = c \<and>
   appointments (fst (viewAppointments c s)) = appointments c \<and>
   cin (snd (viewAppointments c s)) = cin s \<and>
   cerr (snd (viewAppointments c s)) = cerr s \<and>
   fst (viewAppointments (fst (viewAppointments c s)) (snd (viewAppointments c s))) = c"
  by (simp add: viewAppointments_def viewLoop_eq [of "appointments c" s s])

section \<open>The schedule branch of the interactive loop\<close>

lemma getline_streams:
  "cout (snd (getline s)) = cout s \<and> cerr (snd (getline s)) = cerr s"
  by (simp add: getline_def split: list.splits)

lemma promptLine_streams:
  "cout (snd (promptLine txt s)) = cout s @ txt \<and> cerr (snd (promptLine txt s)) = cerr s"
  by (simp add: promptLine_def getline_streams print_def)

lemma readRequest_streams:
  "cout (snd (readRequest s)) = cout s @ requestPrompts \<and> cerr (snd (readRequest s)) = cerr s"
proof -
  obtain a s1 where p1: "promptLine ''Enter client name: '' s = (a, s1)"
    by (cases "promptLine ''Enter client name: '' s") auto
  obtain b s2 where p2: "promptLine ''Enter contact number: '' s1 = (b, s2)"
    by (cases "promptLine ''Enter contact number: '' s1") auto
  obtain v s3 where p3: "promptLine ''Enter vehicle number: '' s2 = (v, s3)"
    by (cases "promptLine ''Enter vehicle number: '' s2") auto
  obtain d s4 where p4: "promptLine ''Enter appointment date (DD-MM-YYYY): '' s3 = (d, s4)"
    by (cases "promptLine ''Enter appointment date (DD-MM-YYYY): '' s3") auto
  obtain t s5 where p5: "promptLine ''Enter service type (oil/engine): '' s4 = (t, s5)"
    by (cases "promptLine ''Enter service type (oil/engine): '' s4") auto
  have r: "snd (readRequest s) = s5"
    by (simp add: readRequest_def p1 p2 p3 p4 p5)
  have "cout s1 = cout s @ ''Enter client name: ''" "cerr s1 = cerr s"
    using promptLine_streams [of "''Enter client name: ''" s] by (simp_all add: p1)
  moreover have "cout s2 = cout s1 @ ''Enter contact number: ''" "cerr s2 = cerr s1"
    using promptLine_streams [of "''Enter contact number: ''" s1] by (simp_all add: p2)
  moreover have "cout s3 = cout s2 @ ''Enter vehicle number: ''" "cerr s3 = cerr s2"
    using promptLine_streams [of "''Enter vehicle number: ''" s2] by (simp_all add: p3)
  moreover have "cout s4 = cout s3 @ ''Enter appointment date (DD-MM-YYYY): ''" "cerr s4 = cerr s3"
    using promptLine_streams [of "''Enter appointment date (DD-MM-YYYY): ''" s3]
    by (simp_all add: p4)
  moreover have "cout s5 = cout s4 @ ''Enter service type (oil/engine): ''" "cerr s5 = cerr s4"
    using promptLine_streams [of "''Enter service type (oil/engine): ''" s4]
    by (simp_all add: p5)
  ultimately show ?thesis
    by (simp add: r requestPrompts_def)
qed
lemma bike_request:
  "readRequest (emptyIO\<lparr>cin := \<lparr>pending = [''Carol'', ''333'', ''KA02'', ''03-01-2025'', ''bike''],
                                failbit = False\<rparr>\<rparr>) =
     ((''Carol'', ''333'', ''KA02'', ''03-01-2025'', ''bike''),
      emptyIO\<lparr>cout := requestPrompts\<rparr>)"
  by (simp add: readRequest_def promptLine_def getline_def print_def emptyIO_def
    requestPrompts_def)

text \<open>
  Claim C9. When the service type read by the schedule branch is neither \<^verbatim>\<open>oil\<close> nor
  \<^verbatim>\<open>engine\<close>, the branch throws \<^verbatim>\<open>invalid_argument\<close> with the message
  \<^verbatim>\<open>Invalid service type\<close> right after the five prompts: the center is unchanged,
  \<^verbatim>\<open>cout\<close> has received the prompts and nothing else, and the handler of the loop
  prints the message to \<^verbatim>\<open>cerr\<close> and continues.
\<close>

theorem C9_invalid_service_type:
  assumes "readRequest s = ((clientName, contactNo, vehicleNum, date, stype), s5)"
    and "stype \<noteq> ''oil''" and "stype \<noteq> ''engine''"
  shows "scheduleBranch c s = (Inl (invalid_argument ''Invalid service type''), c, s5) \<and>
    cout s5 = cout s @ requestPrompts \<and>
    cerr s5 = cerr s \<and>
    iteration 1 c s =
      (Continue, c, s5\<lparr>cerr := cerr s @ ''Error: Invalid service type'' @ endl\<rparr>)"
proof -
  have branch: "scheduleBranch c s = (Inl (invalid_argument ''Invalid service type''), c, s5)"
    using assms by (simp add: scheduleBranch_def)
  have streams: "cout s5 = cout s @ requestPrompts" "cerr s5 = cerr s"
    using readRequest_streams [of s] assms(1) by simp_all
  have "iteration 1 c s =
      (Continue, c, s5\<lparr>cerr := cerr s @ ''Error: Invalid service type'' @ endl\<rparr>)"
    by (simp add: iteration_def tryBlock_def branch streams)
  with branch streams show ?thesis by simp
qed

theorem C9_witness:
  "readRequest (emptyIO\<lparr>cin := \<lparr>pending = [''Carol'', ''333'', ''KA02'', ''03-01-2025'', ''bike''],
                                failbit = False\<rparr>\<rparr>) =
     ((''Carol'', ''333'', ''KA02'', ''03-01-2025'', ''bike''),
      emptyIO\<lparr>cout := requestPrompts\<rparr>) \<and>
   ''bike'' \<noteq> ''oil'' \<and> ''bike'' \<noteq> ''engine'' \<and>
   scheduleBranch ServiceCenter_new
     (emptyIO\<lparr>cin := \<lparr>pending = [''Carol'', ''333'', ''KA02'', ''03-01-2025'', ''bike''],
                        failbit = False\<rparr>\<rparr>) =
     (Inl (invalid_argument ''Invalid service type''), ServiceCenter_new,
      emptyIO\<lparr>cout := requestPrompts\<rparr>) \<and>
   iteration 1 ServiceCenter_new
     (emptyIO\<lparr>cin := \<lparr>pending = [''Carol'', ''333'', ''KA02'', ''03-01-2025'', ''bike''],
                        failbit = False\<rparr>\<rparr>) =
     (Continue, ServiceCenter_new,
      emptyIO\<lparr>cout := requestPrompts, cerr := ''Error: Invalid service type'' @ endl\<rparr>)"
proof -
  have t1: "''bike'' \<noteq> ''oil''" and t2: "''bike'' \<noteq> ''engine''" by simp_all
  note inst = C9_invalid_service_type [OF bike_request t1 t2, of ServiceCenter_new]
  have "cerr (emptyIO\<lparr>cin := \<lparr>pending = [''Carol'', ''333'', ''KA02'', ''03-01-2025'', ''bike''],
                                failbit = False\<rparr>\<rparr>) = []"
    by (simp add: emptyIO_def)
  with inst bike_request t1 t2 show ?thesis by simp
qed

section \<open>What progressing an appointment leaves alone\<close>

text \<open>
  Claim C10. \<^verbatim>\<open>progressState\<close> assigns the state field only: after any number of calls
  the client, the vehicle number, the service and the date of the appointment are what
  they were. Calling it through stored pointers of the center, in any sequence, leaves
  the vector with the same length and the same appointments at the same positions, up
  to their state.
\<close>

theorem C10_progress_changes_only_state:
  "(progressState ^^ n) apt = apt\<lparr>currentState := currentState ((progressState ^^ n) apt)\<rparr> \<and>
   client ((progressState ^^ n) apt) = client apt \<and>
   vehicleNumber ((progressState ^^ n) apt) = vehicleNumber apt \<and>
   service ((progressState ^^ n) apt) = service apt \<and>
   scheduledDate ((progressState ^^ n) apt) = scheduledDate apt \<and>
   ((\<forall>i \<in> set idxs. i < length (appointments c)) \<longrightarrow>
      length (appointments (fold progressStored idxs c)) = length (appointments c) \<and>
      map (\<lambda>a. (client a, vehicleNumber a, service a, scheduledDate a))
        (appointments (fold progressStored idxs c)) =
      map (\<lambda>a. (client a, vehicleNumber a, service a, scheduledDate a)) (appointments c) \<and>
      isOpen (fold progressStored idxs c) = isOpen c)"
  apply (intro conjI impI)
          apply (rule progressState_funpow_frame)
         apply (simp_all only: progressState_funpow_fields fold_progressStored_frame)
  done

theorem C10_witness:
  "length (appointments (fst (snd (scheduleAll scenario ServiceCenter_new emptyIO)))) = 2 \<and>
   map currentState (appointments (fold progressStored [0, 0, 1]
     (fst (snd (scheduleAll scenario ServiceCenter_new emptyIO))))) =
     [CompletedState, InProgressState] \<and>
   map (\<lambda>a. (client a, vehicleNumber a, service a, scheduledDate a))
     (appointments (fold progressStored [0, 0, 1]
       (fst (snd (scheduleAll scenario ServiceCenter_new emptyIO))))) =
     [(Client_new ''Alice'' ''111'', ''KA01'', OilChange_new, ''01-01-2025''),
      (Client_new ''Bob'' ''222'', ''KA01'', EngineRepair_new ''gasket'', ''02-01-2025'')]"
proof -
  let ?c = "fst (snd (scheduleAll scenario ServiceCenter_new emptyIO))"
  have apts: "appointments ?c =
     [ServiceAppointment_new (Client_new ''Alice'' ''111'') ''KA01'' OilChange_new ''01-01-2025'',
      ServiceAppointment_new (Client_new ''Bob'' ''222'') ''KA01'' (EngineRepair_new ''gasket'')
        ''02-01-2025'']"
    by (simp add: scenario_run)
  have inrange: "\<forall>i \<in> set [0, 0, 1]. i < length (appointments ?c)"
    by (simp add: apts)
  note inst = C10_progress_changes_only_state [of 0 "ServiceAppointment_new (Client_new ''Alice'' ''111'') ''KA01'' OilChange_new ''01-01-2025''" "[0, 0, 1]" ?c]
  from inst inrange
  have kept: "map (\<lambda>a. (client a, vehicleNumber a, service a, scheduledDate a))
        (appointments (fold progressStored [0, 0, 1] ?c)) =
      map (\<lambda>a. (client a, vehicleNumber a, service a, scheduledDate a)) (appointments ?c)"
    by blast
  have states: "map currentState (appointments (fold progressStored [0, 0, 1] ?c)) =
     [CompletedState, InProgressState]"
    by (simp add: progressStored_def apts progressState_def setState_def
      ServiceAppointment_new_def)
  show ?thesis
    apply (intro conjI)
      apply (simp add: apts)
     apply (rule states)
    apply (simp only: kept apts)
    apply (simp add: ServiceAppointment_new_def)
    done
qed

end
